theory Spec2Isabelle
  imports Main
begin

section \<open>JavaScript values\<close>

text \<open>
  The component \<open>EditProduct\<close> (src/components/admin/edit-product.tsx) receives response
  bodies and rejection reasons typed \<open>any\<close>, and stores one of them unchecked in its state.
  They are modelled by the values a parsed JSON document or a plain object can take.
  Numbers are restricted to integers; an object is the list of its own properties in
  enumeration order, with pairwise distinct keys.
\<close>

datatype jsval =
    JUndefined
  | JNull
  | JBool bool
  | JNum int
  | JStr string
  | JArr "jsval list"
  | JObj "(string \<times> jsval) list"

datatype exn = TypeError

text \<open>
  How a handler and the render that follows it end. \<open>Normal\<close>: the handler returns and
  the component renders the new state. \<open>Throw x\<close>: the handler itself throws \<open>x\<close>. \<open>RenderError x\<close>:
  the handler returns, but an updater it passed to a setter throws \<open>x\<close> when React applies
  it in the render, and React unmounts the component; the state paired with it is the
  one that render started from, which no component shows any more.
\<close>

datatype completion = Normal | Throw exn | RenderError exn

text \<open>
  Property read \<open>v.k\<close>. Reading a property of \<open>undefined\<close> or \<open>null\<close> throws a
  TypeError; reading a property an object does not have yields \<open>undefined\<close>. The keys this
  component reads (\<open>response\<close>, \<open>status\<close>, \<open>data\<close>, \<open>error\<close>) are no built-in property of a
  string, number, boolean or array, so those reads yield \<open>undefined\<close> there.
\<close>

fun get_prop :: "jsval \<Rightarrow> string \<Rightarrow> exn + jsval" where
  "get_prop JUndefined k = Inl TypeError"
| "get_prop JNull k = Inl TypeError"
| "get_prop (JObj kvs) k = Inr (case map_of kvs k of None \<Rightarrow> JUndefined | Some v \<Rightarrow> v)"
| "get_prop v k = Inr JUndefined"

text \<open>A chain of reads \<open>v.k1.k2...\<close> stops at the first one that throws.\<close>

fun get_path :: "jsval \<Rightarrow> string list \<Rightarrow> exn + jsval" where
  "get_path v [] = Inr v"
| "get_path v (k # ks) = (case get_prop v k of Inl x \<Rightarrow> Inl x | Inr w \<Rightarrow> get_path w ks)"

definition digit :: "nat \<Rightarrow> char" where
  "digit d = ''0123456789'' ! d"

fun string_of_nat :: "nat \<Rightarrow> string" where
  "string_of_nat n =
     (if n < 10 then [digit n] else string_of_nat (n div 10) @ [digit (n mod 10)])"

definition indexed :: "jsval list \<Rightarrow> (string \<times> jsval) list" where
  "indexed xs = zip (map string_of_nat [0..<length xs]) xs"

text \<open>
  Object spread \<open>{...v}\<close> copies the own enumerable properties of \<open>v\<close>: the entries of an
  object, the indexed elements of an array, the indexed characters of a string, and
  nothing for \<open>undefined\<close>, \<open>null\<close>, a boolean or a number.
\<close>

fun own_props :: "jsval \<Rightarrow> (string \<times> jsval) list" where
  "own_props (JObj kvs) = kvs"
| "own_props (JArr xs) = indexed xs"
| "own_props (JStr cs) = indexed (map (\<lambda>c. JStr [c]) cs)"
| "own_props v = []"

text \<open>
  A property written after a spread, \<open>{...v, k: x}\<close>: an existing key keeps its place and
  takes the new value, a new key is added last.
\<close>

definition obj_set :: "string \<Rightarrow> jsval \<Rightarrow> (string \<times> jsval) list \<Rightarrow> (string \<times> jsval) list" where
  "obj_set k x kvs =
     (if k \<in> fst ` set kvs
      then map (\<lambda>(k', v). if k' = k then (k', x) else (k', v)) kvs
      else kvs @ [(k, x)])"

definition spread_with :: "jsval \<Rightarrow> string \<Rightarrow> jsval \<Rightarrow> jsval" where
  "spread_with v k x = JObj (obj_set k x (own_props v))"

subsection \<open>The two zod schemas the component parses with\<close>

text \<open>\<open>z.string().safeParse(v)\<close> succeeds exactly on strings.\<close>

fun parse_string :: "jsval \<Rightarrow> string option" where
  "parse_string (JStr s) = Some s"
| "parse_string v = None"

text \<open>
  \<open>z.object({ image: z.string() }).safeParse(v)\<close> succeeds exactly on an object whose
  \<open>image\<close> property is a string; the result is that string (\<open>imageUrl.data.image\<close>).
\<close>

fun parse_image_object :: "jsval \<Rightarrow> string option" where
  "parse_image_object (JObj kvs) =
     (case map_of kvs ''image'' of None \<Rightarrow> None | Some w \<Rightarrow> parse_string w)"
| "parse_image_object v = None"

section \<open>Props, state and requests of EditProduct\<close>

text \<open>
  The product schema lives outside this file. The fields \<open>image\<close> and \<open>name\<close> are used as
  strings (the \<open>src\<close> of an image, the value of a text input); the other fields are only
  passed on and carry any value. Field \<open>f\<close> of a product is \<open>p_f\<close>, field \<open>id\<close> of a
  category is \<open>c_id\<close>.
\<close>

record product =
  p_id :: jsval
  p_image :: string
  p_name :: string
  p_price :: jsval
  p_stock :: jsval
  p_categoryId :: jsval
  p_variants :: jsval

record category =
  c_id :: jsval

text \<open>
  Product objects live in a store and are held by reference: \<open>useState(product)\<close> makes the
  draft the very object passed as a prop, \<open>uploadImage\<close> assigns to a field of the object
  its closure holds, and the edit handlers build a new object with a spread.
\<close>

type_synonym ref = nat

text \<open>
  The props. \<open>onUpdate\<close> is a function of the caller: the model records each call of it
  as an effect, and the prop holds how the call ends (\<open>None\<close>: it returns, \<open>Some e\<close>: it
  throws \<open>e\<close>). \<open>category\<close> is \<open>Category | undefined\<close>.
\<close>

record props =
  product :: ref
  onUpdate :: "jsval option"
  category :: "category option"

datatype effect = CallOnUpdate "jsval list" | ConsoleLog jsval

text \<open>
  The state cells of the component (\<open>open\<close> and \<open>image\<close> are \<open>open_st\<close> and \<open>image_st\<close>),
  the store, and the trace of calls made to the outside.
\<close>

record state =
  heap :: "ref \<Rightarrow> product"
  fresh :: ref
  success :: string
  formErrors :: jsval
  error :: string
  open_st :: bool
  openErr :: bool
  image_st :: string
  currentProduct :: ref
  effects :: "effect list"

text \<open>
  The options passed to \<open>axios.request\<close>. A template literal with a value of unknown type
  in it is kept as its pieces.
\<close>

datatype piece = Lit string | Subst jsval

type_synonym picked = "string option"

datatype payload = FormData "(string \<times> picked) list" | Data jsval

record options =
  http_method :: string
  url :: "piece list"
  headers :: "(string \<times> string) list"
  data :: payload

text \<open>
  What comes back for a request: nothing at all, or an HTTP status and a parsed body.
  axios fulfils the promise when \<open>validateStatus\<close> holds (by default for the statuses
  200 to 299) and rejects it otherwise, with an error whose \<open>response\<close> is the response,
  or is missing when there was none.
\<close>

datatype reply = NoResponse | Response int jsval

definition validateStatus :: "int \<Rightarrow> bool" where
  "validateStatus st = (200 \<le> st \<and> st < 300)"

fun axios_error :: "reply \<Rightarrow> jsval" where
  "axios_error NoResponse = JObj [(''message'', JStr ''Network Error'')]"
| "axios_error (Response st d) =
     JObj [(''response'', JObj [(''status'', JNum st), (''data'', d)])]"

section \<open>The component\<close>

text \<open>
  Each handler is a function from the state in which it runs to the state it leaves.
  The setters a handler calls are applied in the order of the calls, an updater function
  to the value the setters before it left. A handler started by an event closes over
  the cells of the latest render, so it reads them from the state it runs in; a handler
  of a promise runs later and receives what its closure holds as arguments. A handler
  that stops on a TypeError keeps the updates made before the throw.
\<close>

definition defaultErrors :: jsval where
  "defaultErrors = JObj
     [(''id'', JArr [JStr '''']),
      (''image'', JArr [JStr '''']),
      (''name'', JArr [JStr '''']),
      (''price'', JArr [JStr '''']),
      (''stock'', JArr [JStr '''']),
      (''categoryId'', JArr [JStr '''']),
      (''variants'', JArr [JStr ''''])]"

text \<open>
  The first render: the product prop is the object at address 0, and the draft cell holds
  that same object.
\<close>

definition mount :: "product \<Rightarrow> state" where
  "mount p =
     \<lparr>heap = (\<lambda>r. p), fresh = 1, success = '''', formErrors = defaultErrors, error = '''',
      open_st = False, openErr = False, image_st = p_image p, currentProduct = 0,
      effects = []\<rparr>"

text \<open>The draft of a state: the object its \<open>currentProduct\<close> cell holds.\<close>

definition draft :: "state \<Rightarrow> product" where
  "draft s = heap s (currentProduct s)"

text \<open>
  The \<open>onChange\<close> handler of the name input:
  \<open>setCurrentProduct((prev) => ({ ...prev, name: e.target.value }))\<close>.
\<close>

definition editName :: "string \<Rightarrow> state \<Rightarrow> state" where
  "editName v s =
     s\<lparr>heap := (heap s)(fresh s := (draft s)\<lparr>p_name := v\<rparr>),
       fresh := Suc (fresh s),
       currentProduct := fresh s\<rparr>"

subsection \<open>uploadImage\<close>

text \<open>
  The synchronous part clears the image errors and sends the file. The handlers of the
  promise run later, on the state of that moment, with the draft object \<open>r\<close> that the
  closure of \<open>uploadImage\<close> holds.
\<close>

definition uploadImage :: "picked \<Rightarrow> state \<Rightarrow> options \<times> state" where
  "uploadImage f s =
     (\<lparr>http_method = ''POST'', url = [Lit ''/api/images''], headers = [],
       data = FormData [(''image'', f)]\<rparr>,
      s\<lparr>formErrors := spread_with (formErrors s) ''image'' (JArr [])\<rparr>)"

text \<open>\<open>process.env.NEXT_PUBLIC_APP_HOST\<close> in a template literal.\<close>

fun app_host :: "string option \<Rightarrow> string" where
  "app_host None = ''undefined''"
| "app_host (Some h) = h"

definition uploadImage_then :: "string option \<Rightarrow> ref \<Rightarrow> jsval \<Rightarrow> state \<Rightarrow> state" where
  "uploadImage_then env r d s =
     (case parse_image_object d of
        None \<Rightarrow> s
      | Some i \<Rightarrow>
          (let h = (heap s)(r := (heap s r)\<lparr>p_image := app_host env @ ''/uploads/'' @ i\<rparr>)
           in s\<lparr>heap := h, image_st := p_image (h r)\<rparr>))"

text \<open>
  The updater the \<open>catch\<close> handler passes to \<open>setFormErrors\<close>:
  \<open>(prevState) => ({ ...prevState, image: [err.response.data.error] })\<close>. The read of
  \<open>err.response.data.error\<close> is in the body of the updater, so it takes place when the
  updater is applied, not when the handler runs.
\<close>

definition uploadImage_catch_updater :: "jsval \<Rightarrow> jsval \<Rightarrow> exn + jsval" where
  "uploadImage_catch_updater err prevState =
     (case get_path err [''response'', ''data'', ''error''] of
        Inl x \<Rightarrow> Inl x
      | Inr e \<Rightarrow> Inr (spread_with prevState ''image'' (JArr [e])))"

text \<open>
  The \<open>catch\<close> handler only passes the updater to \<open>setFormErrors\<close> and returns. React
  applies the updater to the field errors in the render that follows: the result is the
  new field-error state, and an error thrown by the updater is raised by that render,
  which unmounts the component.
\<close>

definition uploadImage_catch :: "jsval \<Rightarrow> state \<Rightarrow> completion \<times> state" where
  "uploadImage_catch err s =
     (case uploadImage_catch_updater err (formErrors s) of
        Inl x \<Rightarrow> (RenderError x, s)
      | Inr v \<Rightarrow> (Normal, s\<lparr>formErrors := v\<rparr>))"

definition uploadImage_settle ::
  "string option \<Rightarrow> ref \<Rightarrow> reply \<Rightarrow> state \<Rightarrow> completion \<times> state" where
  "uploadImage_settle env r rp s =
     (case rp of
        NoResponse \<Rightarrow> uploadImage_catch (axios_error rp) s
      | Response st d \<Rightarrow>
          if validateStatus st then (Normal, uploadImage_then env r d s)
          else uploadImage_catch (axios_error rp) s)"

subsection \<open>handleSubmit\<close>

definition handleSubmit :: "props \<Rightarrow> state \<Rightarrow> options option \<times> state" where
  "handleSubmit P s =
     (let s1 = s\<lparr>error := ''''\<rparr>;
          s2 = s1\<lparr>formErrors := defaultErrors\<rparr>
      in if p_image (draft s) = ''''
         then (None,
               s2\<lparr>formErrors :=
                    spread_with (formErrors s2) ''image'' (JArr [JStr ''Image can not be empty''])\<rparr>)
         else (Some
                \<lparr>http_method = ''PATCH'',
                 url = [Lit ''/api/products/'', Subst (p_id (heap s (product P)))],
                 headers = [(''Content-Type'', ''application/x-www-form-urlencoded'')],
                 data = Data (JObj
                   [(''id'', p_id (heap s (product P))),
                    (''image'', JStr (p_image (draft s))),
                    (''name'', JStr (p_name (draft s))),
                    (''price'', p_price (draft s)),
                    (''stock'', p_stock (draft s)),
                    (''categoryId'',
                       (case category P of None \<Rightarrow> JUndefined | Some c \<Rightarrow> c_id c)),
                    (''variants'', p_variants (heap s (product P)))])\<rparr>,
               s2))"

text \<open>
  The \<open>then\<close> handler; the first component is what \<open>onUpdate()\<close> threw, if it threw.
\<close>

definition handleSubmit_then :: "props \<Rightarrow> state \<Rightarrow> jsval option \<times> state" where
  "handleSubmit_then P s =
     (onUpdate P,
      s\<lparr>success := ''Product updated successfully'',
        open_st := True,
        effects := effects s @ [CallOnUpdate []]\<rparr>)"

text \<open>
  The \<open>catch\<close> handler. \<open>logged\<close> is the \<open>formErrors\<close> of the render whose closure this
  is, which \<open>console.log\<close> prints.
\<close>

definition handleSubmit_catch :: "jsval \<Rightarrow> jsval \<Rightarrow> state \<Rightarrow> completion \<times> state" where
  "handleSubmit_catch logged err s =
     (case get_path err [''response'', ''status''] of
        Inl x \<Rightarrow> (Throw x, s)
      | Inr st \<Rightarrow>
          if st = JNum 400 then
            (case get_path err [''response'', ''data'', ''error''] of
               Inl x \<Rightarrow> (Throw x, s)
             | Inr e \<Rightarrow>
                 (Normal, s\<lparr>formErrors := e, effects := effects s @ [ConsoleLog logged]\<rparr>))
          else if st = JNum 403 then
            (case get_path err [''response'', ''data'', ''error''] of
               Inl x \<Rightarrow> (Throw x, s)
             | Inr e \<Rightarrow>
                 (case parse_string e of
                    None \<Rightarrow> (Normal, s)
                  | Some m \<Rightarrow> (Normal, s\<lparr>error := m, openErr := True\<rparr>)))
          else (Normal, s))"

text \<open>
  The chain \<open>axios.request(options).then(...).catch(...)\<close>: the \<open>catch\<close> handler also
  receives what the \<open>then\<close> handler throws.
\<close>

definition handleSubmit_settle :: "props \<Rightarrow> jsval \<Rightarrow> reply \<Rightarrow> state \<Rightarrow> completion \<times> state" where
  "handleSubmit_settle P logged rp s =
     (case rp of
        NoResponse \<Rightarrow> handleSubmit_catch logged (axios_error rp) s
      | Response st d \<Rightarrow>
          if validateStatus st then
            (case handleSubmit_then P s of
               (None, s') \<Rightarrow> (Normal, s')
             | (Some e, s') \<Rightarrow> handleSubmit_catch logged e s')
          else handleSubmit_catch logged (axios_error rp) s)"

text \<open>
  One submit attempt from click to settled promise: \<open>handleSubmit\<close>, and, when it sent
  a request, the handlers on the reply.
\<close>

definition attempt :: "props \<Rightarrow> reply \<Rightarrow> state \<Rightarrow> completion \<times> state" where
  "attempt P rp s =
     (case handleSubmit P s of
        (None, s') \<Rightarrow> (Normal, s')
      | (Some req, s') \<Rightarrow> handleSubmit_settle P (formErrors s) rp s')"

text \<open>
  One upload from the choice of a file to the settled promise. The closure of
  \<open>uploadImage\<close> holds the draft object of the render in which the file was chosen;
  \<open>between\<close> stands for the events the component handles while the request is under way.
\<close>

definition upload_session ::
  "string option \<Rightarrow> picked \<Rightarrow> (state \<Rightarrow> state) \<Rightarrow> reply \<Rightarrow> state \<Rightarrow> completion \<times> state" where
  "upload_session env f between rp s =
     (case uploadImage f s of
        (req, s') \<Rightarrow> uploadImage_settle env (currentProduct s) rp (between s'))"

text \<open>The arguments of the calls of \<open>onUpdate\<close> in a trace, in order.\<close>

fun calls :: "effect list \<Rightarrow> jsval list list" where
  "calls [] = []"
| "calls (CallOnUpdate args # es) = args # calls es"
| "calls (ConsoleLog v # es) = calls es"

subsection \<open>Sample inputs\<close>

definition blank_product :: product where
  "blank_product =
     \<lparr>p_id = JNum 7, p_image = '''', p_name = ''Tea'', p_price = JNum 5, p_stock = JNum 3,
      p_categoryId = JNum 1, p_variants = JArr [JStr ''loose'']\<rparr>"

definition stocked_product :: product where
  "stocked_product = blank_product\<lparr>p_image := ''http://shop/uploads/tea.png''\<rparr>"

definition sample_props :: props where
  "sample_props = \<lparr>product = 0, onUpdate = None, category = Some \<lparr>c_id = JNum 9\<rparr>\<rparr>"

section \<open>Properties\<close>

subsection \<open>Objects\<close>

lemma map_of_replace_other:
  "j \<noteq> k \<Longrightarrow>
   map_of (map (\<lambda>(k', v). if k' = k then (k', x) else (k', v)) kvs) j = map_of kvs j"
  by (induction kvs) auto

lemma map_of_replace_same:
  "k \<in> fst ` set kvs \<Longrightarrow>
   map_of (map (\<lambda>(k', v). if k' = k then (k', x) else (k', v)) kvs) k = Some x"
  by (induction kvs) auto

lemma map_of_obj_set:
  "map_of (obj_set k x kvs) j = (if j = k then Some x else map_of kvs j)"
proof (cases "k \<in> fst ` set kvs")
  case True
  then show ?thesis
    by (simp add: obj_set_def map_of_replace_other map_of_replace_same)
next
  case False
  then have "map_of kvs k = None"
    by (simp add: map_of_eq_None_iff)
  with False show ?thesis
    by (auto simp: obj_set_def map_add_def split: option.splits)
qed

lemma get_prop_spread_with:
  "get_prop (spread_with v k x) j =
     Inr (if j = k then x else (case map_of (own_props v) j of None \<Rightarrow> JUndefined | Some w \<Rightarrow> w))"
  by (simp add: spread_with_def map_of_obj_set)

lemma spread_defaultErrors_image:
  "spread_with defaultErrors ''image'' x =
     JObj [(''id'', JArr [JStr '''']),
           (''image'', x),
           (''name'', JArr [JStr '''']),
           (''price'', JArr [JStr '''']),
           (''stock'', JArr [JStr '''']),
           (''categoryId'', JArr [JStr '''']),
           (''variants'', JArr [JStr ''''])]"
  by (simp add: spread_with_def defaultErrors_def obj_set_def)

lemma get_prop_error_cases:
  "get_prop d k = Inl x \<longleftrightarrow> (d = JUndefined \<or> d = JNull)"
  by (cases d; cases x) simp_all

lemma axios_error_status:
  "get_path (axios_error (Response st d)) [''response'', ''status''] = Inr (JNum st)"
  by simp

lemma axios_error_body:
  "get_path (axios_error (Response st d)) [''response'', ''data'', k] = get_prop d k"
  by (cases "get_prop d k") simp_all

lemma axios_error_no_response:
  "get_path (axios_error NoResponse) (''response'' # k # ks) = Inl TypeError"
  by simp


lemma calls_append: "calls (xs @ ys) = calls xs @ calls ys"
  by (induction xs rule: calls.induct) simp_all

subsection \<open>What the handlers of a submit leave alone\<close>

lemma handleSubmit_catch_frame:
  "success (snd (handleSubmit_catch logged err s)) = success s \<and>
   open_st (snd (handleSubmit_catch logged err s)) = open_st s \<and>
   image_st (snd (handleSubmit_catch logged err s)) = image_st s \<and>
   heap (snd (handleSubmit_catch logged err s)) = heap s \<and>
   currentProduct (snd (handleSubmit_catch logged err s)) = currentProduct s \<and>
   calls (effects (snd (handleSubmit_catch logged err s))) = calls (effects s)"
  by (simp add: handleSubmit_catch_def calls_append split: sum.splits option.splits)

lemma handleSubmit_catch_formErrors:
  "formErrors s = formErrors t \<Longrightarrow>
   formErrors (snd (handleSubmit_catch logged err s)) =
   formErrors (snd (handleSubmit_catch logged' err t))"
  by (simp add: handleSubmit_catch_def split: sum.splits option.splits)

lemma handleSubmit_settle_formErrors:
  "formErrors s = formErrors t \<Longrightarrow>
   formErrors (snd (handleSubmit_settle P logged rp s)) =
   formErrors (snd (handleSubmit_settle P logged' rp t))"
  by (auto simp: handleSubmit_settle_def handleSubmit_then_def
      intro!: handleSubmit_catch_formErrors split: reply.splits option.splits)

lemma handleSubmit_settle_frame:
  "heap (snd (handleSubmit_settle P logged rp s)) = heap s \<and>
   currentProduct (snd (handleSubmit_settle P logged rp s)) = currentProduct s"
  by (simp add: handleSubmit_settle_def handleSubmit_then_def handleSubmit_catch_frame
      split: reply.splits option.splits)

lemma handleSubmit_frame:
  "heap (snd (handleSubmit P s)) = heap s \<and>
   currentProduct (snd (handleSubmit P s)) = currentProduct s"
  by (simp add: handleSubmit_def Let_def)

lemma handleSubmit_formErrors:
  "formErrors (snd (handleSubmit P s)) =
     (if p_image (draft s) = ''''
      then spread_with defaultErrors ''image'' (JArr [JStr ''Image can not be empty''])
      else defaultErrors)"
  by (simp add: handleSubmit_def Let_def)

lemma handleSubmit_request:
  "(fst (handleSubmit P s) = None) = (p_image (draft s) = '''')"
  by (simp add: handleSubmit_def Let_def)

lemma attempt_draft: "draft (snd (attempt P rp s)) = draft s"
proof (cases "handleSubmit P s")
  case (Pair req s')
  from handleSubmit_frame [of P s] Pair
  have "heap s' = heap s" and "currentProduct s' = currentProduct s"
    by simp_all
  with Pair show ?thesis
    by (cases req) (simp_all add: attempt_def draft_def handleSubmit_settle_frame)
qed

lemma attempt_formErrors:
  assumes "(p_image (draft s) = '''') = (p_image (draft t) = '''')"
  shows "formErrors (snd (attempt P rp s)) = formErrors (snd (attempt P rp t))"
proof (cases "p_image (draft s) = ''''")
  case True
  with assms show ?thesis
    by (simp add: attempt_def handleSubmit_def)
next
  case False
  with assms have t: "p_image (draft t) \<noteq> ''''"
    by simp
  have "formErrors (snd (handleSubmit P s)) = formErrors (snd (handleSubmit P t))"
    using False t by (simp add: handleSubmit_formErrors)
  then show ?thesis
    using False t handleSubmit_request [of P s] handleSubmit_request [of P t]
    by (cases "handleSubmit P s"; cases "handleSubmit P t")
       (auto simp: attempt_def intro: handleSubmit_settle_formErrors)
qed

subsection \<open>Submitting\<close>

text \<open>
  C1. When the image of the draft is empty, \<open>handleSubmit\<close> sends no request: it returns
  after clearing the top-level error and setting the field errors to the default ones
  with the image errors replaced by exactly \<open>["Image can not be empty"]\<close>. Nothing else
  of the state changes, and the options of the PATCH request are never built.
\<close>

theorem handleSubmit_empty_image:
  assumes "p_image (draft s) = ''''"
  shows "handleSubmit P s =
    (None,
     s\<lparr>error := '''',
       formErrors := JObj
         [(''id'', JArr [JStr '''']),
          (''image'', JArr [JStr ''Image can not be empty'']),
          (''name'', JArr [JStr '''']),
          (''price'', JArr [JStr '''']),
          (''stock'', JArr [JStr '''']),
          (''categoryId'', JArr [JStr '''']),
          (''variants'', JArr [JStr ''''])]\<rparr>)"
  using assms by (simp add: handleSubmit_def spread_defaultErrors_image)

theorem handleSubmit_empty_image_witness:
  "p_image (draft (mount blank_product)) = '''' \<and>
   fst (handleSubmit sample_props (mount blank_product)) = None \<and>
   get_prop (formErrors (snd (handleSubmit sample_props (mount blank_product)))) ''image'' =
     Inr (JArr [JStr ''Image can not be empty'']) \<and>
   effects (snd (handleSubmit sample_props (mount blank_product))) = []"
proof -
  have h: "p_image (draft (mount blank_product)) = ''''"
    by (simp add: draft_def mount_def blank_product_def)
  show ?thesis
    using h handleSubmit_empty_image [OF h, of sample_props]
    by (simp add: mount_def)
qed

text \<open>
  C7. When the image of the draft is not empty, \<open>handleSubmit\<close> sends a PATCH request
  whose body carries the \<open>id\<close> of the product prop, the image, name, price and stock of
  the draft, the \<open>id\<close> of the category prop (\<open>undefined\<close> when there is no category; the
  \<open>categoryId\<close> of the draft is not read), and the variants of the product prop (those of
  the draft are not read).
\<close>

theorem handleSubmit_request_body:
  assumes "p_image (draft s) \<noteq> ''''"
  shows "fst (handleSubmit P s) = Some
    \<lparr>http_method = ''PATCH'',
     url = [Lit ''/api/products/'', Subst (p_id (heap s (product P)))],
     headers = [(''Content-Type'', ''application/x-www-form-urlencoded'')],
     data = Data (JObj
       [(''id'', p_id (heap s (product P))),
        (''image'', JStr (p_image (draft s))),
        (''name'', JStr (p_name (draft s))),
        (''price'', p_price (draft s)),
        (''stock'', p_stock (draft s)),
        (''categoryId'', (case category P of None \<Rightarrow> JUndefined | Some c \<Rightarrow> c_id c)),
        (''variants'', p_variants (heap s (product P)))])\<rparr>"
  using assms by (simp add: handleSubmit_def Let_def)

theorem handleSubmit_request_body_witness:
  "p_image (draft (editName ''Chai'' (mount stocked_product))) \<noteq> '''' \<and>
   fst (handleSubmit sample_props (editName ''Chai'' (mount stocked_product))) = Some
    \<lparr>http_method = ''PATCH'',
     url = [Lit ''/api/products/'', Subst (JNum 7)],
     headers = [(''Content-Type'', ''application/x-www-form-urlencoded'')],
     data = Data (JObj
       [(''id'', JNum 7),
        (''image'', JStr ''http://shop/uploads/tea.png''),
        (''name'', JStr ''Chai''),
        (''price'', JNum 5),
        (''stock'', JNum 3),
        (''categoryId'', JNum 9),
        (''variants'', JArr [JStr ''loose''])])\<rparr>"
proof -
  have h: "p_image (draft (editName ''Chai'' (mount stocked_product))) \<noteq> ''''"
    by (simp add: draft_def editName_def mount_def stocked_product_def blank_product_def)
  show ?thesis
    using h handleSubmit_request_body [OF h, of sample_props]
    by (simp add: draft_def editName_def mount_def stocked_product_def blank_product_def
        sample_props_def)
qed

text \<open>
  C10. The default error object maps each of the seven fields \<open>id\<close>, \<open>image\<close>, \<open>name\<close>,
  \<open>price\<close>, \<open>stock\<close>, \<open>categoryId\<close> and \<open>variants\<close> to the one-element list \<open>[""]\<close>, which
  is not the empty list, and has no other field. It is the field-error state of the
  first render, and the field-error state \<open>handleSubmit\<close> leaves when the image of the
  draft is not empty; when the image is empty, the image entry alone is overwritten.
\<close>

theorem defaultErrors_representation:
  "map (get_prop defaultErrors)
     [''id'', ''image'', ''name'', ''price'', ''stock'', ''categoryId'', ''variants''] =
     replicate 7 (Inr (JArr [JStr ''''])) \<and>
   map fst (own_props defaultErrors) =
     [''id'', ''image'', ''name'', ''price'', ''stock'', ''categoryId'', ''variants''] \<and>
   JArr [JStr ''''] \<noteq> JArr [] \<and>
   formErrors (mount p) = defaultErrors \<and>
   formErrors (snd (handleSubmit P s)) =
     (if p_image (draft s) = ''''
      then spread_with defaultErrors ''image'' (JArr [JStr ''Image can not be empty''])
      else defaultErrors)"
  by (simp add: handleSubmit_formErrors mount_def) (simp add: defaultErrors_def eval_nat_numeral)


subsection \<open>The reply to a submit\<close>

text \<open>
  C4. On a reply with a status from 200 to 299 the success message is set, the flag of
  the success toast becomes true, and \<open>onUpdate\<close> is called exactly once, with no
  arguments. When that call returns, nothing else of the state changes.
\<close>

theorem handleSubmit_2xx:
  assumes "200 \<le> st" and "st < 300"
  shows "success (snd (handleSubmit_settle P logged (Response st d) s)) =
           ''Product updated successfully'' \<and>
         open_st (snd (handleSubmit_settle P logged (Response st d) s)) \<and>
         calls (effects (snd (handleSubmit_settle P logged (Response st d) s))) =
           calls (effects s) @ [[]] \<and>
         (onUpdate P = None \<longrightarrow>
            handleSubmit_settle P logged (Response st d) s =
              (Normal, s\<lparr>success := ''Product updated successfully'', open_st := True,
                         effects := effects s @ [CallOnUpdate []]\<rparr>))"
  using assms
  by (simp add: handleSubmit_settle_def handleSubmit_then_def validateStatus_def
      handleSubmit_catch_frame calls_append split: option.splits)

theorem handleSubmit_2xx_witness:
  "(200::int) \<le> 204 \<and> (204::int) < 300 \<and> onUpdate sample_props = None \<and>
   handleSubmit_settle sample_props defaultErrors (Response 204 JNull) (mount stocked_product) =
     (Normal, (mount stocked_product)\<lparr>success := ''Product updated successfully'',
        open_st := True, effects := [CallOnUpdate []]\<rparr>)"
proof -
  have a: "(200::int) \<le> 204" and b: "(204::int) < 300"
    by simp_all
  have c: "onUpdate sample_props = None"
    by (simp add: sample_props_def)
  show ?thesis
    using a b c
      handleSubmit_2xx [OF a b, of sample_props defaultErrors JNull "mount stocked_product"]
    by (simp add: mount_def)
qed

text \<open>
  C2, as the code has it. On a reply with status 400 whose body is neither \<open>null\<close> nor
  \<open>undefined\<close>, the field-error state becomes exactly the \<open>error\<close> property of the body,
  whatever it was before: the former errors are replaced, not merged. The stale errors
  of the closure are printed; nothing else changes.
\<close>

theorem handleSubmit_400:
  assumes "get_prop d ''error'' = Inr e"
  shows "handleSubmit_settle P logged (Response 400 d) s =
    (Normal, s\<lparr>formErrors := e, effects := effects s @ [ConsoleLog logged]\<rparr>)"
  using assms
  by (simp add: handleSubmit_settle_def handleSubmit_catch_def validateStatus_def)

theorem handleSubmit_400_witness:
  "get_prop (JObj [(''error'', JObj [(''name'', JArr [JStr ''too short''])])]) ''error'' =
     Inr (JObj [(''name'', JArr [JStr ''too short''])]) \<and>
   formErrors (snd (handleSubmit_settle sample_props defaultErrors
     (Response 400 (JObj [(''error'', JObj [(''name'', JArr [JStr ''too short''])])]))
     (mount stocked_product))) = JObj [(''name'', JArr [JStr ''too short''])]"
proof -
  have h: "get_prop (JObj [(''error'', JObj [(''name'', JArr [JStr ''too short''])])]) ''error'' =
     Inr (JObj [(''name'', JArr [JStr ''too short''])])"
    by simp
  show ?thesis
    using h handleSubmit_400 [OF h, of sample_props defaultErrors "mount stocked_product"]
    by simp
qed

text \<open>
  The body \<open>{name: ["too short"]}\<close> itself has no \<open>error\<close> property: the field-error state
  becomes \<open>undefined\<close>, not that body.
\<close>

theorem handleSubmit_400_counterexample:
  "formErrors (snd (handleSubmit_settle sample_props defaultErrors
      (Response 400 (JObj [(''name'', JArr [JStr ''too short''])])) (mount stocked_product))) =
     JUndefined \<and>
   formErrors (snd (handleSubmit_settle sample_props defaultErrors
      (Response 400 (JObj [(''name'', JArr [JStr ''too short''])])) (mount stocked_product))) \<noteq>
     JObj [(''name'', JArr [JStr ''too short''])]"
  by (simp add: handleSubmit_settle_def handleSubmit_catch_def validateStatus_def)

text \<open>
  C5. On a reply with status 403: when the \<open>error\<close> property of the body is a string, the
  top-level error becomes that string and the flag of the error toast becomes true, and
  nothing else changes; when it is not a string (or cannot be read), the state stays as
  it is, so no error is set and no toast opens.
\<close>

theorem handleSubmit_403:
  "(get_prop d ''error'' = Inr (JStr m) \<longrightarrow>
      handleSubmit_settle P logged (Response 403 d) s =
        (Normal, s\<lparr>error := m, openErr := True\<rparr>)) \<and>
   ((\<forall>m'. get_prop d ''error'' \<noteq> Inr (JStr m')) \<longrightarrow>
      snd (handleSubmit_settle P logged (Response 403 d) s) = s)"
proof (intro conjI impI)
  assume "get_prop d ''error'' = Inr (JStr m)"
  then show "handleSubmit_settle P logged (Response 403 d) s =
      (Normal, s\<lparr>error := m, openErr := True\<rparr>)"
    by (simp add: handleSubmit_settle_def handleSubmit_catch_def validateStatus_def)
next
  assume n: "\<forall>m'. get_prop d ''error'' \<noteq> Inr (JStr m')"
  show "snd (handleSubmit_settle P logged (Response 403 d) s) = s"
  proof (cases "get_prop d ''error''")
    case (Inl x)
    then show ?thesis
      by (simp add: handleSubmit_settle_def handleSubmit_catch_def validateStatus_def)
  next
    case (Inr e)
    with n have "parse_string e = None"
      by (cases e) simp_all
    with Inr show ?thesis
      by (simp add: handleSubmit_settle_def handleSubmit_catch_def validateStatus_def)
  qed
qed

theorem handleSubmit_403_witness:
  "handleSubmit_settle sample_props defaultErrors
     (Response 403 (JObj [(''error'', JStr ''not allowed'')])) (mount stocked_product) =
     (Normal, (mount stocked_product)\<lparr>error := ''not allowed'', openErr := True\<rparr>) \<and>
   snd (handleSubmit_settle sample_props defaultErrors
     (Response 403 (JObj [(''error'', JNum 7)])) (mount stocked_product)) = mount stocked_product"
proof -
  have a: "get_prop (JObj [(''error'', JStr ''not allowed'')]) ''error'' = Inr (JStr ''not allowed'')"
    by simp
  have b: "\<forall>m'. get_prop (JObj [(''error'', JNum 7)]) ''error'' \<noteq> Inr (JStr m')"
    by simp
  show ?thesis
    using a b
      handleSubmit_403 [of "JObj [(''error'', JStr ''not allowed'')]" "''not allowed''"
        sample_props defaultErrors "mount stocked_product"]
      handleSubmit_403 [of "JObj [(''error'', JNum 7)]" "''''"
        sample_props defaultErrors "mount stocked_product"]
    by simp
qed

text \<open>
  C9. When the request fails with no response at all, or with a status that is neither
  400 nor 403, the \<open>catch\<close> handler leaves the whole state as it is: no error is
  recorded, no toast opens, nothing is printed. (With no response the handler itself
  stops on the read of \<open>err.response.status\<close>.)
\<close>

theorem handleSubmit_unhandled_failure:
  "handleSubmit_settle P logged NoResponse s = (Throw TypeError, s) \<and>
   (\<not> validateStatus st \<and> st \<noteq> 400 \<and> st \<noteq> 403 \<longrightarrow>
      handleSubmit_settle P logged (Response st d) s = (Normal, s))"
  by (simp add: handleSubmit_settle_def handleSubmit_catch_def)

theorem handleSubmit_unhandled_failure_witness:
  "\<not> validateStatus 500 \<and>
   handleSubmit_settle sample_props defaultErrors (Response 500 (JObj [(''error'', JStr ''boom'')]))
     (mount stocked_product) = (Normal, mount stocked_product)"
proof -
  have h: "\<not> validateStatus 500 \<and> (500::int) \<noteq> 400 \<and> (500::int) \<noteq> 403"
    by (simp add: validateStatus_def)
  show ?thesis
    using h handleSubmit_unhandled_failure [of sample_props defaultErrors "mount stocked_product"
        500 "JObj [(''error'', JStr ''boom'')]"]
    by simp
qed

text \<open>
  C6. Of two submit attempts made one after the other, each from the click to its
  settled reply, the first leaves no trace in the field errors after the second: they
  are what the second attempt alone produces. More generally the field errors after an
  attempt do not depend on the field errors before it, so no error list grows from one
  attempt to the next.
\<close>

theorem resubmit_replaces_errors:
  "formErrors (snd (attempt P rp2 (snd (attempt P' rp1 s)))) =
     formErrors (snd (attempt P rp2 s)) \<and>
   formErrors (snd (attempt P rp2 (s\<lparr>formErrors := e\<rparr>))) =
     formErrors (snd (attempt P rp2 s))"
proof
  show "formErrors (snd (attempt P rp2 (snd (attempt P' rp1 s)))) =
      formErrors (snd (attempt P rp2 s))"
    by (rule attempt_formErrors) (simp add: attempt_draft)
  show "formErrors (snd (attempt P rp2 (s\<lparr>formErrors := e\<rparr>))) =
      formErrors (snd (attempt P rp2 s))"
    by (rule attempt_formErrors) (simp add: draft_def)
qed

lemma resubmit_example:
  "formErrors (snd (attempt sample_props
      (Response 400 (JObj [(''error'', JObj [(''price'', JArr [JStr ''negative''])])]))
      (snd (attempt sample_props
        (Response 400 (JObj [(''error'', JObj [(''name'', JArr [JStr ''too short''])])]))
        (mount stocked_product))))) =
   JObj [(''price'', JArr [JStr ''negative''])]"
  by (simp add: attempt_def handleSubmit_def handleSubmit_settle_def handleSubmit_catch_def
      validateStatus_def draft_def mount_def stocked_product_def blank_product_def)


subsection \<open>Uploading an image\<close>

text \<open>
  The \<open>then\<close> handler of an upload: a body without a string \<open>image\<close> changes nothing and
  throws nothing; a body with one writes the full address into the draft object of the
  closure and into the \<open>image\<close> cell.
\<close>

lemma uploadImage_then_skips:
  "parse_image_object d = None \<Longrightarrow> uploadImage_then env r d s = s"
  by (simp add: uploadImage_then_def)

lemma uploadImage_then_sets:
  "parse_image_object d = Some i \<Longrightarrow>
   p_image (heap (uploadImage_then env r d s) r) = app_host env @ ''/uploads/'' @ i \<and>
   image_st (uploadImage_then env r d s) = app_host env @ ''/uploads/'' @ i"
  by (simp add: uploadImage_then_def Let_def)

text \<open>
  When nothing replaces the draft while the upload is under way, the object of the
  closure is still the draft, and the draft carries the new image.
\<close>

lemma upload_session_undisturbed:
  assumes "validateStatus st" and "parse_image_object d = Some i"
  shows "p_image (draft (snd (upload_session (Some H) f (\<lambda>s. s) (Response st d) s))) =
           H @ ''/uploads/'' @ i \<and>
         image_st (snd (upload_session (Some H) f (\<lambda>s. s) (Response st d) s)) =
           H @ ''/uploads/'' @ i"
  using assms
  by (simp add: upload_session_def uploadImage_def uploadImage_settle_def
      uploadImage_then_def draft_def Let_def)

text \<open>
  An edit of the name while the upload is under way replaces the draft by a new object;
  the assignment of the \<open>then\<close> handler goes to the old one, and the draft keeps the
  image it had.
\<close>

lemma mount_allocated: "currentProduct (mount p) < fresh (mount p)"
  by (simp add: mount_def)

lemma editName_allocated: "currentProduct (editName v s) < fresh (editName v s)"
  by (simp add: editName_def)

lemma upload_session_edit_between:
  assumes "validateStatus st" and "currentProduct s < fresh s"
  shows "draft (snd (upload_session env f (editName v) (Response st d) s)) =
           (draft s)\<lparr>p_name := v\<rparr>"
  using assms
  by (simp add: upload_session_def uploadImage_def uploadImage_settle_def
      uploadImage_then_def draft_def editName_def Let_def split: option.splits)

text \<open>
  C3, evaluated where the code departs from it. A product without image is opened, a
  file is chosen, the name is edited before the reply arrives, and the upload succeeds
  with the body \<open>{image: "x.png"}\<close> and the host \<open>http://shop\<close>. The \<open>image\<close> cell becomes
  \<open>http://shop/uploads/x.png\<close>, but the image of the draft is still empty, and a
  submit after that is refused for its empty image.
\<close>

theorem upload_session_stale_draft:
  "image_st (snd (upload_session (Some ''http://shop'') (Some ''bytes'') (editName ''Chai'')
      (Response 200 (JObj [(''image'', JStr ''x.png'')])) (mount blank_product))) =
     ''http://shop/uploads/x.png'' \<and>
   p_image (draft (snd (upload_session (Some ''http://shop'') (Some ''bytes'') (editName ''Chai'')
      (Response 200 (JObj [(''image'', JStr ''x.png'')])) (mount blank_product)))) = '''' \<and>
   fst (handleSubmit sample_props
     (snd (upload_session (Some ''http://shop'') (Some ''bytes'') (editName ''Chai'')
      (Response 200 (JObj [(''image'', JStr ''x.png'')])) (mount blank_product)))) = None"
  by (simp add: upload_session_def uploadImage_def uploadImage_settle_def
      uploadImage_then_def draft_def editName_def mount_def blank_product_def
      validateStatus_def handleSubmit_def Let_def)

text \<open>
  C8, as the code has it. When an upload fails with a response whose body is neither
  \<open>null\<close> nor \<open>undefined\<close>, the image errors become the one-element list holding the
  \<open>error\<close> property of the body, which is \<open>undefined\<close> when the body has no such property;
  nothing fails then. When the body is \<open>null\<close> or \<open>undefined\<close>, and when there is no
  response at all, the unguarded read fails with a TypeError: the handler has returned
  by then, the error is raised in the render that applies the updater, and the
  component is unmounted.
\<close>

theorem uploadImage_failure:
  "(\<not> validateStatus st \<and> get_prop d ''error'' = Inr e \<longrightarrow>
      uploadImage_settle env r (Response st d) s =
        (Normal, s\<lparr>formErrors := spread_with (formErrors s) ''image'' (JArr [e])\<rparr>) \<and>
      get_prop (formErrors (snd (uploadImage_settle env r (Response st d) s))) ''image'' =
        Inr (JArr [e])) \<and>
   (\<not> validateStatus st \<and> (d = JNull \<or> d = JUndefined) \<longrightarrow>
      fst (uploadImage_settle env r (Response st d) s) = RenderError TypeError) \<and>
   fst (uploadImage_settle env r NoResponse s) = RenderError TypeError"
  by (auto simp: uploadImage_settle_def uploadImage_catch_def uploadImage_catch_updater_def
      get_prop_spread_with)

theorem uploadImage_failure_witness:
  "get_prop (formErrors (snd (uploadImage_settle None 0
      (Response 413 (JObj [(''error'', JStr ''too large'')])) (mount blank_product)))) ''image'' =
     Inr (JArr [JStr ''too large'']) \<and>
   fst (uploadImage_settle None 0 (Response 502 JNull) (mount blank_product)) =
     RenderError TypeError"
proof -
  have a: "\<not> validateStatus 413 \<and>
      get_prop (JObj [(''error'', JStr ''too large'')]) ''error'' = Inr (JStr ''too large'')"
    by (simp add: validateStatus_def)
  have b: "\<not> validateStatus 502 \<and> (JNull = JNull \<or> JNull = JUndefined)"
    by (simp add: validateStatus_def)
  from a uploadImage_failure [of 413 "JObj [(''error'', JStr ''too large'')]" "JStr ''too large''"
        None 0 "mount blank_product"]
  have 1: "get_prop (formErrors (snd (uploadImage_settle None 0
      (Response 413 (JObj [(''error'', JStr ''too large'')])) (mount blank_product)))) ''image'' =
     Inr (JArr [JStr ''too large''])"
    by blast
  from b uploadImage_failure [of 502 JNull JNull None 0 "mount blank_product"]
  have 2: "fst (uploadImage_settle None 0 (Response 502 JNull) (mount blank_product)) =
     RenderError TypeError"
    by blast
  from 1 2 show ?thesis
    by (rule conjI)
qed

text \<open>
  A failed upload whose body \<open>{}\<close> has no \<open>error\<close> property: the handler ends normally and
  the image errors are \<open>[undefined]\<close>.
\<close>

theorem uploadImage_failure_counterexample:
  "uploadImage_settle (Some ''http://shop'') 0 (Response 500 (JObj [])) (mount blank_product) =
     (Normal, (mount blank_product)\<lparr>formErrors := JObj
        [(''id'', JArr [JStr '''']),
         (''image'', JArr [JUndefined]),
         (''name'', JArr [JStr '''']),
         (''price'', JArr [JStr '''']),
         (''stock'', JArr [JStr '''']),
         (''categoryId'', JArr [JStr '''']),
         (''variants'', JArr [JStr ''''])]\<rparr>)"
  by (simp add: uploadImage_settle_def uploadImage_catch_def uploadImage_catch_updater_def
      validateStatus_def mount_def spread_defaultErrors_image)

end
